theory Spec2Isabelle
  imports Complex_Main "HOL-Library.Sublist"
begin

section \<open>JavaScript numbers\<close>

text \<open>
  The source computes with the \<^verbatim>\<open>number\<close> type of TypeScript, the binary64 format of
  IEEE 754. A value of that type is \<^verbatim>\<open>NaN\<close>, one of the two infinities, or a finite
  value, carried here as the real it denotes. The operators \<^verbatim>\<open>*\<close>, \<^verbatim>\<open>/\<close> and
  \<^verbatim>\<open>+\<close> round the exact result to the nearest value of the format, ties to the even
  significand, and overflow to an infinity; \<^verbatim>\<open>Math.floor\<close>, \<^verbatim>\<open>%\<close> and \<^verbatim>\<open>>\<close> are
  exact. The two zeros are one value: their sign shows only in a division by zero, and the
  source divides by \<^verbatim>\<open>quantity\<close> alone, next to a remainder that is \<^verbatim>\<open>NaN\<close> for either
  zero.
\<close>

datatype number = NaN | PosInfinity | NegInfinity | Fin real

subsection \<open>Rounding to the format\<close>

text \<open>The power of two with an integer exponent.\<close>

definition pow2 :: "int \<Rightarrow> real" where
  "pow2 k = (if 0 \<le> k then 2 ^ nat k else 1 / 2 ^ nat (- k))"

text \<open>The nearest integer, a tie going to the even one.\<close>

definition round_half_even :: "real \<Rightarrow> int" where
  "round_half_even x =
     (let f = \<lfloor>x\<rfloor>; r = x - of_int f
      in if r < 1 / 2 then f
         else if 1 / 2 < r then f + 1
         else if even f then f else f + 1)"

text \<open>
  The binary exponent of a non-zero magnitude, the \<open>e\<close> with \<open>2 ^ e \<le> x < 2 ^ (e + 1)\<close>,
  kept between the least normal exponent \<open>-1022\<close> and the greatest exponent \<open>1023\<close>:
  \<open>exponent_up\<close> halves a magnitude from \<open>1\<close> on until it is below \<open>2\<close>, at most
  \<open>1023\<close> times; \<open>exponent_down\<close> doubles a magnitude below \<open>1\<close> until it reaches
  \<open>1\<close>, at most \<open>1022\<close> times, so that the subnormal values get the exponent \<open>-1022\<close>.
\<close>

fun exponent_up :: "nat \<Rightarrow> real \<Rightarrow> int" where
  "exponent_up 0 x = 0"
| "exponent_up (Suc n) x = (if x < 2 then 0 else 1 + exponent_up n (x / 2))"

fun exponent_down :: "nat \<Rightarrow> real \<Rightarrow> int" where
  "exponent_down 0 x = 0"
| "exponent_down (Suc n) x = (if 1 \<le> x then 0 else exponent_down n (2 * x) - 1)"

definition exponent :: "real \<Rightarrow> int" where
  "exponent x = (if 1 \<le> \<bar>x\<bar> then exponent_up 1023 \<bar>x\<bar> else exponent_down 1022 \<bar>x\<bar>)"

text \<open>
  Rounding an exact result: the significand has \<open>53\<close> bits, so the values of the format
  around \<open>x\<close> are the multiples of \<open>2 ^ (exponent x - 52)\<close>; \<open>x\<close> goes to the nearest of
  them, and a result of magnitude \<open>2 ^ 1024\<close> or more is an infinity.
\<close>

definition round_double :: "real \<Rightarrow> number" where
  "round_double x =
     (if x = 0 then Fin 0
      else let ulp = pow2 (exponent x - 52);
               y = of_int (round_half_even (x / ulp)) * ulp
           in if 2 ^ 1024 \<le> y then PosInfinity
              else if y \<le> - (2 ^ 1024) then NegInfinity
              else Fin y)"

subsection \<open>The operators\<close>

text \<open>The operator \<^verbatim>\<open>*\<close>: a zero times an infinity is \<^verbatim>\<open>NaN\<close>.\<close>

fun js_mul :: "number \<Rightarrow> number \<Rightarrow> number" where
  "js_mul (Fin a) (Fin b) = round_double (a * b)"
| "js_mul (Fin a) PosInfinity = (if a = 0 then NaN else if 0 < a then PosInfinity else NegInfinity)"
| "js_mul (Fin a) NegInfinity = (if a = 0 then NaN else if 0 < a then NegInfinity else PosInfinity)"
| "js_mul PosInfinity (Fin b) = (if b = 0 then NaN else if 0 < b then PosInfinity else NegInfinity)"
| "js_mul NegInfinity (Fin b) = (if b = 0 then NaN else if 0 < b then NegInfinity else PosInfinity)"
| "js_mul PosInfinity PosInfinity = PosInfinity"
| "js_mul PosInfinity NegInfinity = NegInfinity"
| "js_mul NegInfinity PosInfinity = NegInfinity"
| "js_mul NegInfinity NegInfinity = PosInfinity"
| "js_mul NaN _ = NaN"
| "js_mul _ NaN = NaN"

text \<open>The operator \<^verbatim>\<open>+\<close> on numbers: opposite infinities add up to \<^verbatim>\<open>NaN\<close>.\<close>

fun js_add :: "number \<Rightarrow> number \<Rightarrow> number" where
  "js_add (Fin a) (Fin b) = round_double (a + b)"
| "js_add (Fin a) PosInfinity = PosInfinity"
| "js_add (Fin a) NegInfinity = NegInfinity"
| "js_add PosInfinity (Fin b) = PosInfinity"
| "js_add NegInfinity (Fin b) = NegInfinity"
| "js_add PosInfinity PosInfinity = PosInfinity"
| "js_add PosInfinity NegInfinity = NaN"
| "js_add NegInfinity PosInfinity = NaN"
| "js_add NegInfinity NegInfinity = NegInfinity"
| "js_add NaN _ = NaN"
| "js_add _ NaN = NaN"

text \<open>
  The operator \<^verbatim>\<open>/\<close>: a non-zero value over zero is an infinity, zero over zero
  and an infinity over an infinity are \<^verbatim>\<open>NaN\<close>, a finite value over an infinity is zero.
\<close>

fun js_div :: "number \<Rightarrow> number \<Rightarrow> number" where
  "js_div (Fin a) (Fin b) =
     (if b = 0 then (if a = 0 then NaN else if 0 < a then PosInfinity else NegInfinity)
      else round_double (a / b))"
| "js_div (Fin a) PosInfinity = Fin 0"
| "js_div (Fin a) NegInfinity = Fin 0"
| "js_div PosInfinity (Fin b) = (if 0 \<le> b then PosInfinity else NegInfinity)"
| "js_div NegInfinity (Fin b) = (if 0 \<le> b then NegInfinity else PosInfinity)"
| "js_div PosInfinity PosInfinity = NaN"
| "js_div PosInfinity NegInfinity = NaN"
| "js_div NegInfinity PosInfinity = NaN"
| "js_div NegInfinity NegInfinity = NaN"
| "js_div NaN _ = NaN"
| "js_div _ NaN = NaN"

text \<open>
  \<^verbatim>\<open>Math.floor\<close> keeps \<^verbatim>\<open>NaN\<close> and the infinities; the floor of a value of the format
  is a value of the format.
\<close>

fun Math_floor :: "number \<Rightarrow> number" where
  "Math_floor (Fin a) = Fin (of_int \<lfloor>a\<rfloor>)"
| "Math_floor x = x"

text \<open>
  The operator \<^verbatim>\<open>%\<close> is the remainder of the division truncated towards zero, so
  its sign is the dividend's. It is \<^verbatim>\<open>NaN\<close> for a zero divisor and for an infinite
  dividend, and the dividend itself for an infinite divisor. It is computed from the exact
  quotient and is not rounded: the remainder of two values of the format is a value of the
  format.
\<close>

definition js_trunc :: "real \<Rightarrow> int" where
  "js_trunc x = (if 0 \<le> x then \<lfloor>x\<rfloor> else \<lceil>x\<rceil>)"

fun js_rem :: "number \<Rightarrow> number \<Rightarrow> number" where
  "js_rem (Fin a) (Fin b) = (if b = 0 then NaN else Fin (a - b * of_int (js_trunc (a / b))))"
| "js_rem (Fin a) PosInfinity = Fin a"
| "js_rem (Fin a) NegInfinity = Fin a"
| "js_rem PosInfinity (Fin b) = NaN"
| "js_rem NegInfinity (Fin b) = NaN"
| "js_rem PosInfinity PosInfinity = NaN"
| "js_rem PosInfinity NegInfinity = NaN"
| "js_rem NegInfinity PosInfinity = NaN"
| "js_rem NegInfinity NegInfinity = NaN"
| "js_rem NaN _ = NaN"
| "js_rem _ NaN = NaN"

text \<open>The operator \<^verbatim>\<open>>\<close>: every comparison with \<^verbatim>\<open>NaN\<close> is false.\<close>

fun js_gt :: "number \<Rightarrow> number \<Rightarrow> bool" where
  "js_gt (Fin a) (Fin b) = (b < a)"
| "js_gt (Fin a) PosInfinity = False"
| "js_gt (Fin a) NegInfinity = True"
| "js_gt PosInfinity (Fin b) = True"
| "js_gt NegInfinity (Fin b) = False"
| "js_gt PosInfinity PosInfinity = False"
| "js_gt PosInfinity NegInfinity = True"
| "js_gt NegInfinity PosInfinity = False"
| "js_gt NegInfinity NegInfinity = False"
| "js_gt NaN _ = False"
| "js_gt _ NaN = False"

section \<open>Run-time values and objects\<close>

text \<open>
  The fields of \<^verbatim>\<open>RuleDefinition\<close> are declared \<^verbatim>\<open>number\<close> and optional, and the
  constructor tests them with \<^verbatim>\<open>typeof\<close> at run time, so the model keeps the values
  a field can hold at run time. An object is a map from property names to values; reading
  a property that is absent gives \<^verbatim>\<open>undefined\<close>.
\<close>

datatype jsval =
  JUndefined | JNull | JBoolean bool | JNumber number | JString string | JBigInt int

fun typeof :: "jsval \<Rightarrow> string" where
  "typeof JUndefined = ''undefined''"
| "typeof JNull = ''object''"
| "typeof (JBoolean b) = ''boolean''"
| "typeof (JNumber n) = ''number''"
| "typeof (JString s) = ''string''"
| "typeof (JBigInt i) = ''bigint''"

type_synonym RuleDefinition = "string \<rightharpoonup> jsval"

definition property :: "RuleDefinition \<Rightarrow> string \<Rightarrow> jsval" where
  "property obj k = (case obj k of None \<Rightarrow> JUndefined | Some v \<Rightarrow> v)"

section \<open>The class PricingRule\<close>

text \<open>
  The three constructor parameters are public fields. \<^verbatim>\<open>RuleType\<close> is a union of
  string literals, a string at run time. The field \<^verbatim>\<open>definition\<close> is written
  \<open>definition'\<close>.
\<close>

record PricingRule =
  skuId :: string
  type :: string
  definition' :: RuleDefinition

text \<open>
  \<open>Error msg\<close> is the \<^verbatim>\<open>Error\<close> the constructor throws. \<open>AssertionViolated k\<close>
  is the failure of a non-null assertion \<^verbatim>\<open>this.definition.k!\<close>: TypeScript erases
  the assertion, the model checks it, so that a result \<open>Inr\<close> of a pricing method says
  that every field it read was a number.
\<close>

datatype error = Error string | AssertionViolated string

definition nonNull :: "PricingRule \<Rightarrow> string \<Rightarrow> error + number" where
  "nonNull this k =
     (case property (definition' this) k of
        JNumber n \<Rightarrow> Inr n
      | _ \<Rightarrow> Inl (AssertionViolated k))"

definition bind_result :: "error + 'a \<Rightarrow> ('a \<Rightarrow> error + 'b) \<Rightarrow> error + 'b" where
  "bind_result m f = (case m of Inl e \<Rightarrow> Inl e | Inr v \<Rightarrow> f v)"

text \<open>
  A method takes the instance and returns its result (or the error it throws) together
  with the instance as the method leaves it.
\<close>

definition validateDefinition :: "PricingRule \<Rightarrow> (error + unit) \<times> PricingRule" where
  \<open>validateDefinition this =
     (if type this = ''discount'' then
        (if typeof (property (definition' this) ''quantity'') \<noteq> ''number'' \<or>
            typeof (property (definition' this) ''discountedQuantity'') \<noteq> ''number''
         then (Inl (Error (''Invalid definition for discount rule on SKU '' @ skuId this @
                 ''. Expected "quantity" and "discountedQuantity" to be numbers.'')), this)
         else (Inr (), this))
      else if type this = ''reducedPrice'' then
        (if typeof (property (definition' this) ''quantity'') \<noteq> ''number'' \<or>
            typeof (property (definition' this) ''bulkPrice'') \<noteq> ''number''
         then (Inl (Error (''Invalid definition for reduced price rule on SKU '' @ skuId this @
                 ''. Expected "quantity" and "bulkPrice" to be numbers.'')), this)
         else (Inr (), this))
      else if type this = ''both'' then
        (if typeof (property (definition' this) ''quantity'') \<noteq> ''number'' \<or>
            typeof (property (definition' this) ''discountedQuantity'') \<noteq> ''number'' \<or>
            typeof (property (definition' this) ''bulkPrice'') \<noteq> ''number''
         then (Inl (Error (''Invalid definition for combined rule on SKU '' @ skuId this @
                 ''. Expected "quantity", "discountedQuantity", and "bulkPrice" to be numbers.'')), this)
         else (Inr (), this))
      else (Inl (Error (''Unknown rule type: '' @ type this)), this))\<close>

text \<open>
  The constructor: it stores the three parameters and validates; a throw leaves no instance.
  The parameter \<^verbatim>\<open>definition\<close> is an object, as its type says; its properties hold any
  value.
\<close>

definition new_PricingRule :: "string \<Rightarrow> string \<Rightarrow> RuleDefinition \<Rightarrow> error + PricingRule" where
  "new_PricingRule sku ty defn =
     (let this = \<lparr>skuId = sku, type = ty, definition' = defn\<rparr>
      in case validateDefinition this of
           (Inl e, _) \<Rightarrow> Inl e
         | (Inr _, this') \<Rightarrow> Inr this')"

definition applyDiscount :: "number \<Rightarrow> number \<Rightarrow> PricingRule \<Rightarrow> (error + number) \<times> PricingRule" where
  "applyDiscount count price this =
     (bind_result (nonNull this ''quantity'') (\<lambda>q.
        let discountSets = Math_floor (js_div count q) in
        bind_result (nonNull this ''quantity'') (\<lambda>q'.
        let remainingItems = js_rem count q' in
        bind_result (nonNull this ''discountedQuantity'') (\<lambda>d.
        Inr (js_mul (js_add (js_mul discountSets d) remainingItems) price)))),
      this)"

definition applyReducedPrice :: "number \<Rightarrow> number \<Rightarrow> PricingRule \<Rightarrow> (error + number) \<times> PricingRule" where
  "applyReducedPrice count price this =
     (bind_result (nonNull this ''quantity'') (\<lambda>q.
        if js_gt count q
        then bind_result (nonNull this ''bulkPrice'') (\<lambda>b. Inr (js_mul count b))
        else Inr (js_mul count price)),
      this)"

definition applyBoth :: "number \<Rightarrow> number \<Rightarrow> PricingRule \<Rightarrow> (error + number) \<times> PricingRule" where
  "applyBoth count price this =
     (bind_result (nonNull this ''quantity'') (\<lambda>q.
        let discountSets = Math_floor (js_div count q) in
        bind_result (nonNull this ''discountedQuantity'') (\<lambda>d.
        let discountedItemsCount = js_mul discountSets d in
        bind_result (nonNull this ''quantity'') (\<lambda>q'.
        let remainingItems = js_rem count q' in
        let totalDiscountedCount = js_add discountedItemsCount remainingItems in
        bind_result (nonNull this ''quantity'') (\<lambda>q''.
        if js_gt totalDiscountedCount q''
        then bind_result (nonNull this ''bulkPrice'') (\<lambda>b. Inr (js_mul totalDiscountedCount b))
        else Inr (js_mul (js_add discountedItemsCount remainingItems) price))))),
      this)"

text \<open>The method \<^verbatim>\<open>apply\<close>, written \<open>apply_rule\<close>.\<close>

definition apply_rule :: "number \<Rightarrow> number \<Rightarrow> PricingRule \<Rightarrow> (error + number) \<times> PricingRule" where
  "apply_rule count price this =
     (if type this = ''discount'' then applyDiscount count price this
      else if type this = ''reducedPrice'' then applyReducedPrice count price this
      else if type this = ''both'' then applyBoth count price this
      else (Inr (js_mul count price), this))"

section \<open>The vocabulary of the specification\<close>

text \<open>
  The definitions of this section follow the words of the specification, not the code; the
  theorems compare the code with them. The recognised variants and the fields each of them
  requires are those of the data model.
\<close>

definition recognized :: "string list" where
  "recognized = [''discount'', ''reducedPrice'', ''both'']"

definition requiredFields :: "string \<Rightarrow> string list" where
  "requiredFields ty =
     (if ty = ''discount'' then [''quantity'', ''discountedQuantity'']
      else if ty = ''reducedPrice'' then [''quantity'', ''bulkPrice'']
      else if ty = ''both'' then [''quantity'', ''discountedQuantity'', ''bulkPrice'']
      else [])"

text \<open>
  Billed units: full groups times the discounted quantity, plus the leftover units,
  \<^verbatim>\<open>floor(count / q) * d + count mod q\<close>, in the arithmetic of numbers.
\<close>

definition billedUnits :: "number \<Rightarrow> number \<Rightarrow> number \<Rightarrow> number" where
  "billedUnits count q d = js_add (js_mul (Math_floor (js_div count q)) d) (js_rem count q)"

text \<open>A value that is a number and neither \<^verbatim>\<open>NaN\<close> nor an infinity.\<close>

fun Number_isFinite :: "jsval \<Rightarrow> bool" where
  "Number_isFinite (JNumber (Fin x)) = True"
| "Number_isFinite _ = False"

text \<open>A field name as the error messages write it, between double quotes.\<close>

definition quoted :: "string \<Rightarrow> string" where
  "quoted k = [CHR 0x22] @ k @ [CHR 0x22]"

section \<open>Basic facts\<close>

subsection \<open>Rounding\<close>

lemma round_double_zero [simp]: "round_double 0 = Fin 0"
  by (simp add: round_double_def)

lemma exponent_up_numeral:
  "exponent_up (numeral k) x = (if x < 2 then 0 else 1 + exponent_up (pred_numeral k) (x / 2))"
  by (simp add: numeral_eq_Suc)

lemma exponent_down_numeral:
  "exponent_down (numeral k) x =
     (if 1 \<le> x then 0 else exponent_down (pred_numeral k) (2 * x) - 1)"
  by (simp add: numeral_eq_Suc)

lemmas round_double_eval =
  round_double_def exponent_def pow2_def round_half_even_def Let_def
  exponent_up_numeral exponent_down_numeral

text \<open>
  The exponent stays in the range of the format, a rounded value is within half a unit
  in the last place of the exact one, and an integer of magnitude below \<open>2 ^ 53\<close> is a
  value of the format: rounding leaves it as it is.
\<close>

lemma round_half_even_near: "\<bar>of_int (round_half_even x) - x\<bar> \<le> 1 / 2"
proof -
  have "of_int \<lfloor>x\<rfloor> \<le> x" and "x < of_int \<lfloor>x\<rfloor> + 1" by linarith+
  then show ?thesis
    by (auto simp add: round_half_even_def Let_def)
qed

lemma round_half_even_of_int [simp]: "round_half_even (of_int m) = m"
  by (simp add: round_half_even_def Let_def)

lemma pow2_pos [simp]: "0 < pow2 k"
  by (simp add: pow2_def)

lemma exponent_up_bounds: "0 \<le> exponent_up n x \<and> exponent_up n x \<le> int n"
proof (induction n arbitrary: x)
  case 0
  then show ?case by simp
next
  case (Suc n)
  from Suc.IH [of "x / 2"] show ?case by simp
qed

lemma exponent_down_bounds: "- int n \<le> exponent_down n x \<and> exponent_down n x \<le> 0"
proof (induction n arbitrary: x)
  case 0
  then show ?case by simp
next
  case (Suc n)
  from Suc.IH [of "2 * x"] show ?case by simp
qed

lemma exponent_bounds: "- 1022 \<le> exponent x \<and> exponent x \<le> 1023"
  using exponent_up_bounds [of 1023 "\<bar>x\<bar>"] exponent_down_bounds [of 1022 "\<bar>x\<bar>"]
  by (simp add: exponent_def)

lemma exponent_up_less: "x < 2 ^ Suc k \<Longrightarrow> exponent_up n x \<le> int k"
proof (induction n arbitrary: x k)
  case 0
  then show ?case by simp
next
  case (Suc n)
  show ?case
  proof (cases "x < 2")
    case True
    then show ?thesis by simp
  next
    case False
    with Suc.prems obtain j where k: "k = Suc j"
      by (cases k) auto
    with Suc.prems have "x / 2 < 2 ^ Suc j" by simp
    then have "exponent_up n (x / 2) \<le> int j" by (rule Suc.IH)
    with False k show ?thesis by simp
  qed
qed

lemma round_double_near:
  assumes "round_double x = Fin y"
  shows "\<bar>y - x\<bar> \<le> pow2 (exponent x - 52) / 2"
proof (cases "x = 0")
  case True
  with assms show ?thesis by (simp add: less_imp_le)
next
  case False
  define u where "u = pow2 (exponent x - 52)"
  have u: "0 < u" by (simp add: u_def)
  from assms False have y: "y = of_int (round_half_even (x / u)) * u"
    by (simp add: round_double_def Let_def u_def split: if_splits)
  have "\<bar>of_int (round_half_even (x / u)) - x / u\<bar> \<le> 1 / 2"
    by (rule round_half_even_near)
  then have "\<bar>of_int (round_half_even (x / u)) - x / u\<bar> * u \<le> 1 / 2 * u"
    using u by (intro mult_right_mono) simp_all
  moreover have "\<bar>of_int (round_half_even (x / u)) - x / u\<bar> * u = \<bar>y - x\<bar>"
  proof -
    from u have "\<bar>of_int (round_half_even (x / u)) - x / u\<bar> * u =
        \<bar>(of_int (round_half_even (x / u)) - x / u) * u\<bar>"
      by (simp add: abs_mult)
    also from u have "(of_int (round_half_even (x / u)) - x / u) * u = y - x"
      by (simp add: y left_diff_distrib)
    finally show ?thesis .
  qed
  ultimately have "\<bar>y - x\<bar> \<le> 1 / 2 * u" by simp
  then show ?thesis by (simp add: u_def)
qed

lemma round_double_of_int:
  assumes "\<bar>m\<bar> < 2 ^ 53"
  shows "round_double (of_int m) = Fin (of_int m)"
proof (cases "m = 0")
  case True
  then show ?thesis by simp
next
  case False
  define x :: real where "x = of_int m"
  from False have x0: "x \<noteq> 0" by (simp add: x_def)
  from False have "1 \<le> \<bar>m\<bar>" by linarith
  then have "(1::real) \<le> of_int \<bar>m\<bar>" by (simp only: of_int_1_le_iff)
  then have x1: "1 \<le> \<bar>x\<bar>" by (simp add: x_def)
  from assms have "real_of_int \<bar>m\<bar> < of_int (2 ^ 53)" by (simp only: of_int_less_iff)
  then have x53: "\<bar>x\<bar> < 2 ^ 53" by (simp add: x_def)
  then have "\<bar>x\<bar> < 2 ^ Suc 52" by simp
  then have "exponent_up 1023 \<bar>x\<bar> \<le> int 52" by (rule exponent_up_less)
  with x1 have e: "exponent x \<le> 52" by (simp add: exponent_def)
  define k where "k = nat (52 - exponent x)"
  from e have u: "pow2 (exponent x - 52) = 1 / 2 ^ k"
    by (auto simp add: pow2_def k_def)
  have "x / (1 / 2 ^ k) = of_int (m * 2 ^ k)" by (simp add: x_def)
  then have r: "round_half_even (x / (1 / 2 ^ k)) = m * 2 ^ k"
    by (simp only: round_half_even_of_int)
  have y: "of_int (m * 2 ^ k) * (1 / 2 ^ k) = x" by (simp add: x_def)
  have yx: "of_int (round_half_even (x / pow2 (exponent x - 52))) * pow2 (exponent x - 52) = x"
    by (simp only: u r y)
  have big: "(2::real) ^ 53 \<le> 2 ^ 1024" by (rule power_increasing) simp_all
  with x53 have "\<not> 2 ^ 1024 \<le> x" and "\<not> x \<le> - (2 ^ 1024)" by linarith+
  with x0 have "round_double x = Fin x"
    unfolding round_double_def Let_def yx by (simp only: if_False)
  then show ?thesis by (simp only: x_def)
qed

text \<open>
  The rounding at work. \<open>3602879701896397 / 2 ^ 55\<close> is the value of the literal
  \<^verbatim>\<open>0.1\<close>, and \<open>(2 ^ 53 - 1) * 2 ^ 971\<close> is \<^verbatim>\<open>Number.MAX_VALUE\<close>.
\<close>

lemma three_times_tenth:
  "js_mul (Fin 3) (Fin (3602879701896397 / 2 ^ 55)) = Fin (5404319552844596 / 2 ^ 54)"
  by (simp add: round_double_eval)

lemma one_over_tenth:
  "Math_floor (js_div (Fin 1) (Fin (3602879701896397 / 2 ^ 55))) = Fin 10"
  by (simp add: round_double_eval)

lemma large_quotient:
  "Math_floor (js_div (Fin (2 ^ 54 - 2)) (Fin 3)) = Fin 6004799503160661"
  by (simp add: round_double_eval)

lemma large_product:
  "js_mul (Fin (2 ^ 53 - 1)) (Fin 3) = Fin 27021597764222972"
  by (simp add: round_double_eval)

lemma large_sum:
  "js_add (Fin (2 ^ 53)) (Fin 1) = Fin (2 ^ 53)"
  by (simp add: round_double_eval)

lemma twice_MAX_VALUE:
  "js_mul (Fin 2) (Fin ((2 ^ 53 - 1) * 2 ^ 971)) = PosInfinity"
  by (simp add: round_double_eval)

lemma half_MIN_VALUE:
  "js_div (Fin (1 / 2 ^ 1074)) (Fin 2) = Fin 0"
  by (simp add: round_double_eval)

subsection \<open>Construction and the pricing methods\<close>

lemma typeof_number_iff: "(typeof v = ''number'') = (\<exists>n. v = JNumber n)"
  by (cases v) simp_all

lemma nonNull_number:
  "property (definition' this) k = JNumber n \<Longrightarrow> nonNull this k = Inr n"
  by (simp add: nonNull_def)

lemma validateDefinition_this: "snd (validateDefinition this) = this"
  by (simp add: validateDefinition_def)

lemma new_PricingRule_Inr:
  "(new_PricingRule sku ty defn = Inr this) =
     (this = \<lparr>skuId = sku, type = ty, definition' = defn\<rparr> \<and>
      fst (validateDefinition \<lparr>skuId = sku, type = ty, definition' = defn\<rparr>) = Inr ())"
proof -
  obtain r s where v: "validateDefinition \<lparr>skuId = sku, type = ty, definition' = defn\<rparr> = (r, s)"
    by (cases "validateDefinition \<lparr>skuId = sku, type = ty, definition' = defn\<rparr>")
  from validateDefinition_this [of "\<lparr>skuId = sku, type = ty, definition' = defn\<rparr>"] v
  have s: "s = \<lparr>skuId = sku, type = ty, definition' = defn\<rparr>" by simp
  show ?thesis
    by (cases r) (auto simp add: new_PricingRule_def v s)
qed

lemma validate_discount:
  "(fst (validateDefinition \<lparr>skuId = sku, type = ''discount'', definition' = defn\<rparr>) = Inr ()) =
     (\<exists>q d. property defn ''quantity'' = JNumber q \<and> property defn ''discountedQuantity'' = JNumber d)"
  by (auto simp add: validateDefinition_def typeof_number_iff)

lemma validate_reducedPrice:
  "(fst (validateDefinition \<lparr>skuId = sku, type = ''reducedPrice'', definition' = defn\<rparr>) = Inr ()) =
     (\<exists>q b. property defn ''quantity'' = JNumber q \<and> property defn ''bulkPrice'' = JNumber b)"
  by (auto simp add: validateDefinition_def typeof_number_iff)

lemma validate_both:
  "(fst (validateDefinition \<lparr>skuId = sku, type = ''both'', definition' = defn\<rparr>) = Inr ()) =
     (\<exists>q d b. property defn ''quantity'' = JNumber q \<and>
        property defn ''discountedQuantity'' = JNumber d \<and> property defn ''bulkPrice'' = JNumber b)"
  by (auto simp add: validateDefinition_def typeof_number_iff)

lemma validate_unknown:
  "ty \<notin> set recognized \<Longrightarrow>
     fst (validateDefinition \<lparr>skuId = sku, type = ty, definition' = defn\<rparr>) =
       Inl (Error (''Unknown rule type: '' @ ty))"
  by (simp add: validateDefinition_def recognized_def)

lemma apply_discount_value:
  assumes "type this = ''discount''"
    and "property (definition' this) ''quantity'' = JNumber q"
    and "property (definition' this) ''discountedQuantity'' = JNumber d"
  shows "fst (apply_rule count price this) = Inr (js_mul (billedUnits count q d) price)"
  using assms
  by (simp add: apply_rule_def applyDiscount_def nonNull_def bind_result_def billedUnits_def)

lemma applyReducedPrice_value:
  assumes "property (definition' this) ''quantity'' = JNumber q"
    and "property (definition' this) ''bulkPrice'' = JNumber b"
  shows "fst (applyReducedPrice count price this) =
           Inr (if js_gt count q then js_mul count b else js_mul count price)"
  using assms
  by (simp add: applyReducedPrice_def nonNull_def bind_result_def)

lemma apply_both_value:
  assumes "type this = ''both''"
    and "property (definition' this) ''quantity'' = JNumber q"
    and "property (definition' this) ''discountedQuantity'' = JNumber d"
    and "property (definition' this) ''bulkPrice'' = JNumber b"
  shows "fst (apply_rule count price this) =
           Inr (if js_gt (billedUnits count q d) q then js_mul (billedUnits count q d) b
                else js_mul (billedUnits count q d) price)"
  using assms
  by (simp add: apply_rule_def applyBoth_def nonNull_def bind_result_def billedUnits_def Let_def)

lemma js_gt_irrefl: "\<not> js_gt x x"
  by (cases x) simp_all

lemma apply_rule_this: "snd (apply_rule count price this) = this"
  by (simp add: apply_rule_def applyDiscount_def applyReducedPrice_def applyBoth_def)

lemma validate_recognized:
  assumes "fst (validateDefinition \<lparr>skuId = sku, type = ty, definition' = defn\<rparr>) = Inr ()"
  shows "ty \<in> set recognized"
proof (rule ccontr)
  assume "ty \<notin> set recognized"
  from validate_unknown [OF this, of sku defn] assms show False by simp
qed

lemma validate_required:
  assumes "fst (validateDefinition \<lparr>skuId = sku, type = ty, definition' = defn\<rparr>) = Inr ()"
    and "k \<in> set (requiredFields ty)"
  shows "\<exists>n. property defn k = JNumber n"
proof -
  from assms(1) have "ty \<in> set recognized" by (rule validate_recognized)
  then consider "ty = ''discount''" | "ty = ''reducedPrice''" | "ty = ''both''"
    by (auto simp add: recognized_def)
  then show ?thesis
  proof cases
    case 1
    with assms show ?thesis by (auto simp add: validate_discount requiredFields_def)
  next
    case 2
    with assms show ?thesis by (auto simp add: validate_reducedPrice requiredFields_def)
  next
    case 3
    with assms show ?thesis by (auto simp add: validate_both requiredFields_def)
  qed
qed

lemma validate_idem:
  "fst (validateDefinition \<lparr>skuId = sku, type = ty, definition' = defn\<rparr>) = Inr () \<Longrightarrow>
     validateDefinition \<lparr>skuId = sku, type = ty, definition' = defn\<rparr> =
       (Inr (), \<lparr>skuId = sku, type = ty, definition' = defn\<rparr>)"
  using validateDefinition_this [of "\<lparr>skuId = sku, type = ty, definition' = defn\<rparr>"]
  by (cases "validateDefinition \<lparr>skuId = sku, type = ty, definition' = defn\<rparr>") simp

lemma sublist_tail: "sublist xs zs \<Longrightarrow> sublist xs (ps @ ys @ zs)"
  by (simp add: sublist_append)

lemma Number_isFinite_iff: "Number_isFinite v = (\<exists>x. v = JNumber (Fin x))"
proof (cases v)
  case (JNumber n)
  then show ?thesis by (cases n) simp_all
qed simp_all

lemma billedUnits_zero: "a \<noteq> 0 \<Longrightarrow> billedUnits (Fin 0) (Fin a) (Fin b) = Fin 0"
  by (simp add: billedUnits_def js_trunc_def)

lemma validate_discount_message:
  \<open>fst (validateDefinition \<lparr>skuId = sku, type = ''discount'', definition' = defn\<rparr>) = Inl e \<Longrightarrow>
     e = Error (''Invalid definition for discount rule on SKU '' @ sku @
                ''. Expected "quantity" and "discountedQuantity" to be numbers.'')\<close>
  by (simp add: validateDefinition_def split: if_splits)

lemma validate_reducedPrice_message:
  \<open>fst (validateDefinition \<lparr>skuId = sku, type = ''reducedPrice'', definition' = defn\<rparr>) = Inl e \<Longrightarrow>
     e = Error (''Invalid definition for reduced price rule on SKU '' @ sku @
                ''. Expected "quantity" and "bulkPrice" to be numbers.'')\<close>
  by (simp add: validateDefinition_def split: if_splits)

lemma validate_both_message:
  \<open>fst (validateDefinition \<lparr>skuId = sku, type = ''both'', definition' = defn\<rparr>) = Inl e \<Longrightarrow>
     e = Error (''Invalid definition for combined rule on SKU '' @ sku @
                ''. Expected "quantity", "discountedQuantity", and "bulkPrice" to be numbers.'')\<close>
  by (simp add: validateDefinition_def split: if_splits)

lemma new_PricingRule_Inl:
  "(new_PricingRule sku ty defn = Inl e) =
     (fst (validateDefinition \<lparr>skuId = sku, type = ty, definition' = defn\<rparr>) = Inl e)"
  by (cases "validateDefinition \<lparr>skuId = sku, type = ty, definition' = defn\<rparr>")
     (auto simp add: new_PricingRule_def split: sum.splits)

lemma message_shape:
  assumes "e = Error (P @ sku @ S)" and "\<forall>k\<in>set ks. sublist (quoted k) S"
  shows "\<exists>msg. e = Error msg \<and> sublist sku msg \<and> (\<forall>k\<in>set ks. sublist (quoted k) msg)"
  using assms by (auto intro: sublist_tail)

lemma message_names_sku_and_fields:
  assumes "ty \<in> set recognized"
    and "fst (validateDefinition \<lparr>skuId = sku, type = ty, definition' = defn\<rparr>) = Inl e"
  shows "\<exists>msg. e = Error msg \<and> sublist sku msg \<and>
           (\<forall>k\<in>set (requiredFields ty). sublist (quoted k) msg)"
proof -
  from assms(1) consider "ty = ''discount''" | "ty = ''reducedPrice''" | "ty = ''both''"
    by (auto simp add: recognized_def)
  then show ?thesis
  proof cases
    case 1
    show ?thesis unfolding 1
    proof (rule message_shape)
      from assms(2) show \<open>e = Error (''Invalid definition for discount rule on SKU '' @ sku @
                ''. Expected "quantity" and "discountedQuantity" to be numbers.'')\<close>
        unfolding 1 by (rule validate_discount_message)
      show \<open>\<forall>k\<in>set (requiredFields ''discount''). sublist (quoted k)
                ''. Expected "quantity" and "discountedQuantity" to be numbers.''\<close>
        by code_simp
    qed
  next
    case 2
    show ?thesis unfolding 2
    proof (rule message_shape)
      from assms(2) show \<open>e = Error (''Invalid definition for reduced price rule on SKU '' @ sku @
                ''. Expected "quantity" and "bulkPrice" to be numbers.'')\<close>
        unfolding 2 by (rule validate_reducedPrice_message)
      show \<open>\<forall>k\<in>set (requiredFields ''reducedPrice''). sublist (quoted k)
                ''. Expected "quantity" and "bulkPrice" to be numbers.''\<close>
        by code_simp
    qed
  next
    case 3
    show ?thesis unfolding 3
    proof (rule message_shape)
      from assms(2) show \<open>e = Error (''Invalid definition for combined rule on SKU '' @ sku @
                ''. Expected "quantity", "discountedQuantity", and "bulkPrice" to be numbers.'')\<close>
        unfolding 3 by (rule validate_both_message)
      show \<open>\<forall>k\<in>set (requiredFields ''both''). sublist (quoted k)
                ''. Expected "quantity", "discountedQuantity", and "bulkPrice" to be numbers.''\<close>
        by code_simp
    qed
  qed
qed

lemma validate_fails_iff:
  "isl (fst (validateDefinition \<lparr>skuId = sku, type = ty, definition' = defn\<rparr>)) =
     ((\<exists>k\<in>set (requiredFields ty). typeof (property defn k) \<noteq> ''number'') \<or>
      ty \<notin> set recognized)"
  by (auto simp add: validateDefinition_def requiredFields_def recognized_def)

section \<open>The pricing algorithms\<close>

text \<open>
  In the theorems of this section \<open>count\<close> and \<open>price\<close> range over all numbers, so
  over the non-negative integer counts and the non-negative prices in particular. The
  products, the quotient and the sum are those of the source, rounded as the source rounds
  them.
\<close>





text \<open>
  Claim C3. A successfully constructed rule of type \<^verbatim>\<open>reducedPrice\<close> has numbers in
  \<^verbatim>\<open>quantity\<close> and \<^verbatim>\<open>bulkPrice\<close>, and \<^verbatim>\<open>apply(count, price)\<close> returns
  \<^verbatim>\<open>count * bulkPrice\<close> when \<^verbatim>\<open>count > quantity\<close> and \<^verbatim>\<open>count * price\<close> otherwise;
  a count equal to the quantity is charged the regular price.
\<close>

theorem reducedPrice_total:
  assumes "new_PricingRule sku ''reducedPrice'' defn = Inr this"
  shows "\<exists>q b. property defn ''quantity'' = JNumber q \<and>
           property defn ''bulkPrice'' = JNumber b \<and>
           fst (apply_rule count price this) =
             Inr (if js_gt count q then js_mul count b else js_mul count price) \<and>
           fst (apply_rule q price this) = Inr (js_mul q price)"
proof -
  from assms have inst: "this = \<lparr>skuId = sku, type = ''reducedPrice'', definition' = defn\<rparr>"
    and "fst (validateDefinition \<lparr>skuId = sku, type = ''reducedPrice'', definition' = defn\<rparr>) = Inr ()"
    by (simp_all add: new_PricingRule_Inr)
  then obtain q b where q: "property defn ''quantity'' = JNumber q"
    and b: "property defn ''bulkPrice'' = JNumber b"
    by (auto simp add: validate_reducedPrice)
  from inst have ap: "apply_rule c price this = applyReducedPrice c price this" for c
    by (simp add: apply_rule_def)
  from inst q b have v: "fst (applyReducedPrice c price this) =
      Inr (if js_gt c q then js_mul c b else js_mul c price)" for c
    by (intro applyReducedPrice_value) simp_all
  have "fst (apply_rule count price this) =
      Inr (if js_gt count q then js_mul count b else js_mul count price)"
    by (simp only: ap v)
  moreover have "fst (apply_rule q price this) = Inr (js_mul q price)"
    by (simp add: ap v js_gt_irrefl)
  ultimately show ?thesis using q b by blast
qed

theorem reducedPrice_total_witness:
  "new_PricingRule ''A'' ''reducedPrice''
      [''quantity'' \<mapsto> JNumber (Fin 5), ''bulkPrice'' \<mapsto> JNumber (Fin 8)] =
     Inr \<lparr>skuId = ''A'', type = ''reducedPrice'',
          definition' = [''quantity'' \<mapsto> JNumber (Fin 5), ''bulkPrice'' \<mapsto> JNumber (Fin 8)]\<rparr> \<and>
   fst (apply_rule (Fin 5) (Fin 10)
          \<lparr>skuId = ''A'', type = ''reducedPrice'',
           definition' = [''quantity'' \<mapsto> JNumber (Fin 5), ''bulkPrice'' \<mapsto> JNumber (Fin 8)]\<rparr>) =
     Inr (Fin 50) \<and>
   fst (apply_rule (Fin 6) (Fin 10)
          \<lparr>skuId = ''A'', type = ''reducedPrice'',
           definition' = [''quantity'' \<mapsto> JNumber (Fin 5), ''bulkPrice'' \<mapsto> JNumber (Fin 8)]\<rparr>) =
     Inr (Fin 48)"
proof -
  let ?M = "[''quantity'' \<mapsto> JNumber (Fin 5), ''bulkPrice'' \<mapsto> JNumber (Fin 8)]"
  let ?R = "\<lparr>skuId = ''A'', type = ''reducedPrice'', definition' = ?M\<rparr>"
  have c: "new_PricingRule ''A'' ''reducedPrice'' ?M = Inr ?R"
    by (simp add: new_PricingRule_Inr validate_reducedPrice property_def)
  from reducedPrice_total [OF c, of "Fin 6" "Fin 10"]
  obtain q b where "property ?M ''quantity'' = JNumber q"
    and "property ?M ''bulkPrice'' = JNumber b"
    and r: "fst (apply_rule (Fin 6) (Fin 10) ?R) =
              Inr (if js_gt (Fin 6) q then js_mul (Fin 6) b else js_mul (Fin 6) (Fin 10))"
    and e: "fst (apply_rule q (Fin 10) ?R) = Inr (js_mul q (Fin 10))"
    by blast
  then have "q = Fin 5" and "b = Fin 8"
    by (simp_all add: property_def)
  with r e have "fst (apply_rule (Fin 6) (Fin 10) ?R) = Inr (Fin 48)"
    and "fst (apply_rule (Fin 5) (Fin 10) ?R) = Inr (Fin 50)"
    by (simp_all add: round_double_eval)
  with c show ?thesis by simp
qed

text \<open>
  Claim C10. On a successfully constructed rule of type \<^verbatim>\<open>both\<close>,
  \<^verbatim>\<open>apply(count, price)\<close> returns what \<^verbatim>\<open>applyReducedPrice\<close> returns on the same
  instance for the billed units in place of the count.
\<close>

theorem both_is_reducedPrice_of_billedUnits:
  assumes "new_PricingRule sku ''both'' defn = Inr this"
  shows "\<exists>q d. property defn ''quantity'' = JNumber q \<and>
           property defn ''discountedQuantity'' = JNumber d \<and>
           fst (apply_rule count price this) =
             fst (applyReducedPrice (billedUnits count q d) price this)"
proof -
  from assms have inst: "this = \<lparr>skuId = sku, type = ''both'', definition' = defn\<rparr>"
    and "fst (validateDefinition \<lparr>skuId = sku, type = ''both'', definition' = defn\<rparr>) = Inr ()"
    by (simp_all add: new_PricingRule_Inr)
  then obtain q d b where q: "property defn ''quantity'' = JNumber q"
    and d: "property defn ''discountedQuantity'' = JNumber d"
    and b: "property defn ''bulkPrice'' = JNumber b"
    by (auto simp add: validate_both)
  from inst q d b have "fst (apply_rule count price this) =
      Inr (if js_gt (billedUnits count q d) q
           then js_mul (billedUnits count q d) b
           else js_mul (billedUnits count q d) price)"
    by (intro apply_both_value) simp_all
  moreover from inst q b have "fst (applyReducedPrice (billedUnits count q d) price this) =
      Inr (if js_gt (billedUnits count q d) q
           then js_mul (billedUnits count q d) b
           else js_mul (billedUnits count q d) price)"
    by (intro applyReducedPrice_value) simp_all
  ultimately show ?thesis using q d by simp
qed

theorem both_is_reducedPrice_of_billedUnits_witness:
  "new_PricingRule ''B'' ''both''
      [''quantity'' \<mapsto> JNumber (Fin 3), ''discountedQuantity'' \<mapsto> JNumber (Fin 2),
       ''bulkPrice'' \<mapsto> JNumber (Fin 5)] =
     Inr \<lparr>skuId = ''B'', type = ''both'',
          definition' = [''quantity'' \<mapsto> JNumber (Fin 3), ''discountedQuantity'' \<mapsto> JNumber (Fin 2),
                         ''bulkPrice'' \<mapsto> JNumber (Fin 5)]\<rparr> \<and>
   fst (apply_rule (Fin 10) (Fin 10)
          \<lparr>skuId = ''B'', type = ''both'',
           definition' = [''quantity'' \<mapsto> JNumber (Fin 3), ''discountedQuantity'' \<mapsto> JNumber (Fin 2),
                          ''bulkPrice'' \<mapsto> JNumber (Fin 5)]\<rparr>) =
   fst (applyReducedPrice (Fin 7) (Fin 10)
          \<lparr>skuId = ''B'', type = ''both'',
           definition' = [''quantity'' \<mapsto> JNumber (Fin 3), ''discountedQuantity'' \<mapsto> JNumber (Fin 2),
                          ''bulkPrice'' \<mapsto> JNumber (Fin 5)]\<rparr>)"
proof -
  let ?M = "[''quantity'' \<mapsto> JNumber (Fin 3), ''discountedQuantity'' \<mapsto> JNumber (Fin 2),
             ''bulkPrice'' \<mapsto> JNumber (Fin 5)]"
  let ?R = "\<lparr>skuId = ''B'', type = ''both'', definition' = ?M\<rparr>"
  have c: "new_PricingRule ''B'' ''both'' ?M = Inr ?R"
    by (simp add: new_PricingRule_Inr validate_both property_def)
  from both_is_reducedPrice_of_billedUnits [OF c, of "Fin 10" "Fin 10"]
  obtain q d where "property ?M ''quantity'' = JNumber q"
    and "property ?M ''discountedQuantity'' = JNumber d"
    and r: "fst (apply_rule (Fin 10) (Fin 10) ?R) =
              fst (applyReducedPrice (billedUnits (Fin 10) q d) (Fin 10) ?R)"
    by blast
  then have "q = Fin 3" and "d = Fin 2"
    by (simp_all add: property_def)
  moreover have "billedUnits (Fin 10) (Fin 3) (Fin 2) = Fin 7"
    by (simp add: billedUnits_def js_trunc_def round_double_eval)
  ultimately have "fst (apply_rule (Fin 10) (Fin 10) ?R) = fst (applyReducedPrice (Fin 7) (Fin 10) ?R)"
    using r by simp
  with c show ?thesis by simp
qed

section \<open>The pricing methods at inputs that round\<close>

text \<open>
  The methods run on constructed rules at a price of \<^verbatim>\<open>0.1\<close>, at a count of
  \<open>2 ^ 54 - 2\<close>, at a quantity of \<^verbatim>\<open>0.1\<close> and at a price of \<^verbatim>\<open>Number.MAX_VALUE\<close>:
  \<^verbatim>\<open>3 * 0.1\<close> is \<^verbatim>\<open>0.30000000000000004\<close>, the quotient \<open>(2 ^ 54 - 2) / 3\<close> rounds up
  before \<^verbatim>\<open>Math.floor\<close>, \<^verbatim>\<open>1 / 0.1\<close> is \<open>10\<close> groups with a remainder \<^verbatim>\<open>1 % 0.1\<close>
  that is not zero, and \<^verbatim>\<open>2 * Number.MAX_VALUE\<close> is \<^verbatim>\<open>Infinity\<close>.
\<close>

lemmas run_defs = apply_rule_def applyDiscount_def applyReducedPrice_def applyBoth_def
  nonNull_def bind_result_def property_def js_trunc_def round_double_eval

lemma reducedPrice_rounds:
  "fst (apply_rule (Fin 3) (Fin (3602879701896397 / 2 ^ 55))
          \<lparr>skuId = ''A'', type = ''reducedPrice'',
           definition' = [''quantity'' \<mapsto> JNumber (Fin 5), ''bulkPrice'' \<mapsto> JNumber (Fin 8)]\<rparr>) =
     Inr (Fin (5404319552844596 / 2 ^ 54))"
  by (simp add: run_defs)

lemma both_rounds:
  "fst (apply_rule (Fin 4) (Fin (3602879701896397 / 2 ^ 55))
          \<lparr>skuId = ''A'', type = ''both'',
           definition' = [''quantity'' \<mapsto> JNumber (Fin 3), ''discountedQuantity'' \<mapsto> JNumber (Fin 2),
                          ''bulkPrice'' \<mapsto> JNumber (Fin 5)]\<rparr>) =
     Inr (Fin (5404319552844596 / 2 ^ 54))"
  by (simp add: run_defs)

lemma discount_rounds:
  "fst (apply_rule (Fin (2 ^ 54 - 2)) (Fin 1)
          \<lparr>skuId = ''A'', type = ''discount'',
           definition' = [''quantity'' \<mapsto> JNumber (Fin 3), ''discountedQuantity'' \<mapsto> JNumber (Fin 1)]\<rparr>) =
     Inr (Fin 6004799503160663)"
  by (simp add: run_defs)

lemma discount_fraction:
  "fst (apply_rule (Fin 1) (Fin 1)
          \<lparr>skuId = ''A'', type = ''discount'',
           definition' = [''quantity'' \<mapsto> JNumber (Fin (3602879701896397 / 2 ^ 55)),
                          ''discountedQuantity'' \<mapsto> JNumber (Fin 1)]\<rparr>) =
     Inr (Fin (5685794529555251 / 2 ^ 49))"
  by (simp add: run_defs)

lemma reducedPrice_overflow:
  "fst (apply_rule (Fin 2) (Fin ((2 ^ 53 - 1) * 2 ^ 971))
          \<lparr>skuId = ''A'', type = ''reducedPrice'',
           definition' = [''quantity'' \<mapsto> JNumber (Fin 5), ''bulkPrice'' \<mapsto> JNumber (Fin 8)]\<rparr>) =
     Inr PosInfinity"
  by (simp add: run_defs)

section \<open>Safety of apply\<close>

text \<open>
  Claim C5. On a successfully constructed rule of any variant, \<^verbatim>\<open>apply(count, price)\<close>
  returns a number for every count and price and raises no error: every field it reads
  under a non-null assertion is a number, \<^verbatim>\<open>quantity\<close>, the divisor of its division
  and of its remainder, among them. A quantity of zero gives \<^verbatim>\<open>NaN\<close>, not an error.
\<close>

theorem apply_returns_number:
  assumes "new_PricingRule sku ty defn = Inr this"
  shows "(\<exists>total. fst (apply_rule count price this) = Inr total) \<and>
         (\<exists>q. nonNull this ''quantity'' = Inr q)"
proof -
  from assms have inst: "this = \<lparr>skuId = sku, type = ty, definition' = defn\<rparr>"
    and v: "fst (validateDefinition \<lparr>skuId = sku, type = ty, definition' = defn\<rparr>) = Inr ()"
    by (simp_all add: new_PricingRule_Inr)
  from v have "ty \<in> set recognized" by (rule validate_recognized)
  then consider "ty = ''discount''" | "ty = ''reducedPrice''" | "ty = ''both''"
    by (auto simp add: recognized_def)
  then show ?thesis
  proof cases
    case 1
    with v obtain q d where q: "property defn ''quantity'' = JNumber q"
      and d: "property defn ''discountedQuantity'' = JNumber d"
      by (auto simp add: validate_discount)
    from inst 1 q d have "fst (apply_rule count price this) = Inr (js_mul (billedUnits count q d) price)"
      by (intro apply_discount_value) simp_all
    moreover from inst q have "nonNull this ''quantity'' = Inr q"
      by (simp add: nonNull_number)
    ultimately show ?thesis by blast
  next
    case 2
    with v obtain q b where q: "property defn ''quantity'' = JNumber q"
      and b: "property defn ''bulkPrice'' = JNumber b"
      by (auto simp add: validate_reducedPrice)
    from inst q b have "fst (applyReducedPrice count price this) =
        Inr (if js_gt count q then js_mul count b else js_mul count price)"
      by (intro applyReducedPrice_value) simp_all
    with inst 2 have "fst (apply_rule count price this) =
        Inr (if js_gt count q then js_mul count b else js_mul count price)"
      by (simp add: apply_rule_def)
    moreover from inst q have "nonNull this ''quantity'' = Inr q"
      by (simp add: nonNull_number)
    ultimately show ?thesis by blast
  next
    case 3
    with v obtain q d b where q: "property defn ''quantity'' = JNumber q"
      and d: "property defn ''discountedQuantity'' = JNumber d"
      and b: "property defn ''bulkPrice'' = JNumber b"
      by (auto simp add: validate_both)
    from inst 3 q d b have "fst (apply_rule count price this) =
        Inr (if js_gt (billedUnits count q d) q
             then js_mul (billedUnits count q d) b
             else js_mul (billedUnits count q d) price)"
      by (intro apply_both_value) simp_all
    moreover from inst q have "nonNull this ''quantity'' = Inr q"
      by (simp add: nonNull_number)
    ultimately show ?thesis by blast
  qed
qed

theorem apply_returns_number_witness:
  "new_PricingRule ''C'' ''discount''
      [''quantity'' \<mapsto> JNumber (Fin 0), ''discountedQuantity'' \<mapsto> JNumber (Fin 2)] =
     Inr \<lparr>skuId = ''C'', type = ''discount'',
          definition' = [''quantity'' \<mapsto> JNumber (Fin 0), ''discountedQuantity'' \<mapsto> JNumber (Fin 2)]\<rparr> \<and>
   fst (apply_rule (Fin 7) (Fin 10)
          \<lparr>skuId = ''C'', type = ''discount'',
           definition' = [''quantity'' \<mapsto> JNumber (Fin 0), ''discountedQuantity'' \<mapsto> JNumber (Fin 2)]\<rparr>) =
     Inr NaN \<and>
   nonNull \<lparr>skuId = ''C'', type = ''discount'',
           definition' = [''quantity'' \<mapsto> JNumber (Fin 0), ''discountedQuantity'' \<mapsto> JNumber (Fin 2)]\<rparr>
     ''quantity'' = Inr (Fin 0)"
proof -
  let ?M = "[''quantity'' \<mapsto> JNumber (Fin 0), ''discountedQuantity'' \<mapsto> JNumber (Fin 2)]"
  let ?R = "\<lparr>skuId = ''C'', type = ''discount'', definition' = ?M\<rparr>"
  have c: "new_PricingRule ''C'' ''discount'' ?M = Inr ?R"
    by (simp add: new_PricingRule_Inr validate_discount property_def)
  from apply_returns_number [OF c, of "Fin 7" "Fin 10"]
  obtain total q where t: "fst (apply_rule (Fin 7) (Fin 10) ?R) = Inr total"
    and q: "nonNull ?R ''quantity'' = Inr q"
    by blast
  from q have "nonNull ?R ''quantity'' = Inr (Fin 0)"
    by (simp add: nonNull_def property_def)
  moreover from t have "fst (apply_rule (Fin 7) (Fin 10) ?R) = Inr NaN"
    by (simp add: apply_rule_def applyDiscount_def nonNull_def bind_result_def property_def)
  ultimately show ?thesis using c by simp
qed

section \<open>The instance after construction\<close>

text \<open>
  The constructor declares \<^verbatim>\<open>skuId\<close>, \<^verbatim>\<open>type\<close> and \<^verbatim>\<open>definition\<close> as public
  fields without \<^verbatim>\<open>readonly\<close>, so code outside the class may assign to them; an
  assignment is an update of the record. After \<^verbatim>\<open>r.type = "both"\<close> a constructed
  \<^verbatim>\<open>discount\<close> rule has no \<^verbatim>\<open>bulkPrice\<close>, a field its type requires, and after
  \<^verbatim>\<open>r.definition = {}\<close> it has none of its fields: the instance no longer validates.
\<close>

theorem public_field_write_counterexample:
  "new_PricingRule ''A'' ''discount''
      [''quantity'' \<mapsto> JNumber (Fin 3), ''discountedQuantity'' \<mapsto> JNumber (Fin 2)] =
     Inr \<lparr>skuId = ''A'', type = ''discount'',
          definition' = [''quantity'' \<mapsto> JNumber (Fin 3), ''discountedQuantity'' \<mapsto> JNumber (Fin 2)]\<rparr> \<and>
   ''bulkPrice'' \<in> set (requiredFields (type
      (\<lparr>skuId = ''A'', type = ''discount'',
        definition' = [''quantity'' \<mapsto> JNumber (Fin 3), ''discountedQuantity'' \<mapsto> JNumber (Fin 2)]\<rparr>
       \<lparr>type := ''both''\<rparr>))) \<and>
   typeof (property (definition'
      (\<lparr>skuId = ''A'', type = ''discount'',
        definition' = [''quantity'' \<mapsto> JNumber (Fin 3), ''discountedQuantity'' \<mapsto> JNumber (Fin 2)]\<rparr>
       \<lparr>type := ''both''\<rparr>)) ''bulkPrice'') = ''undefined'' \<and>
   isl (fst (validateDefinition
      (\<lparr>skuId = ''A'', type = ''discount'',
        definition' = [''quantity'' \<mapsto> JNumber (Fin 3), ''discountedQuantity'' \<mapsto> JNumber (Fin 2)]\<rparr>
       \<lparr>type := ''both''\<rparr>))) \<and>
   isl (fst (validateDefinition
      (\<lparr>skuId = ''A'', type = ''discount'',
        definition' = [''quantity'' \<mapsto> JNumber (Fin 3), ''discountedQuantity'' \<mapsto> JNumber (Fin 2)]\<rparr>
       \<lparr>definition' := Map.empty\<rparr>)))"
  by (simp add: new_PricingRule_def validateDefinition_def property_def requiredFields_def)

text \<open>
  Claim C8, as amended. An instance the constructor returns holds the three constructor
  arguments, its type is one of the three variants and every field its type requires is of
  numeric type: it validates again. A failed construction returns an error and no instance.
  No method of the class assigns to \<^verbatim>\<open>skuId\<close>, \<^verbatim>\<open>type\<close> or \<^verbatim>\<open>definition\<close>:
  \<^verbatim>\<open>apply\<close> and the three private pricing methods leave the instance as it was, and it
  still validates after \<^verbatim>\<open>apply\<close>. Immutability against code outside the class is not
  part of the statement.
\<close>

theorem constructed_valid_unchanged:
  assumes "new_PricingRule sku ty defn = Inr this"
  shows "skuId this = sku \<and> type this = ty \<and> definition' this = defn \<and>
         ty \<in> set recognized \<and>
         (\<forall>k\<in>set (requiredFields ty). typeof (property (definition' this) k) = ''number'') \<and>
         validateDefinition this = (Inr (), this) \<and>
         snd (apply_rule count price this) = this \<and>
         snd (applyDiscount count price this) = this \<and>
         snd (applyReducedPrice count price this) = this \<and>
         snd (applyBoth count price this) = this \<and>
         validateDefinition (snd (apply_rule count price this)) = (Inr (), this)"
proof -
  from assms have inst: "this = \<lparr>skuId = sku, type = ty, definition' = defn\<rparr>"
    and v: "fst (validateDefinition \<lparr>skuId = sku, type = ty, definition' = defn\<rparr>) = Inr ()"
    by (simp_all add: new_PricingRule_Inr)
  from inst have fields: "skuId this = sku \<and> type this = ty \<and> definition' this = defn"
    by simp
  from v have rec: "ty \<in> set recognized" by (rule validate_recognized)
  have req: "\<forall>k\<in>set (requiredFields ty). typeof (property (definition' this) k) = ''number''"
  proof
    fix k assume "k \<in> set (requiredFields ty)"
    with v obtain n where "property defn k = JNumber n"
      using validate_required by blast
    with inst show "typeof (property (definition' this) k) = ''number''" by simp
  qed
  from v inst have val: "validateDefinition this = (Inr (), this)"
    by (simp add: validate_idem)
  have ap: "snd (apply_rule count price this) = this" by (rule apply_rule_this)
  moreover have "snd (applyDiscount count price this) = this" by (simp add: applyDiscount_def)
  moreover have "snd (applyReducedPrice count price this) = this" by (simp add: applyReducedPrice_def)
  moreover have "snd (applyBoth count price this) = this" by (simp add: applyBoth_def)
  moreover from ap val have "validateDefinition (snd (apply_rule count price this)) = (Inr (), this)"
    by simp
  ultimately show ?thesis using fields rec req val by blast
qed

theorem constructed_valid_unchanged_witness:
  "new_PricingRule ''D'' ''reducedPrice''
      [''quantity'' \<mapsto> JNumber (Fin 5), ''bulkPrice'' \<mapsto> JNumber (Fin 8), ''note'' \<mapsto> JString ''x''] =
     Inr \<lparr>skuId = ''D'', type = ''reducedPrice'',
          definition' = [''quantity'' \<mapsto> JNumber (Fin 5), ''bulkPrice'' \<mapsto> JNumber (Fin 8),
                         ''note'' \<mapsto> JString ''x'']\<rparr> \<and>
   snd (apply_rule (Fin 6) (Fin 10)
          \<lparr>skuId = ''D'', type = ''reducedPrice'',
           definition' = [''quantity'' \<mapsto> JNumber (Fin 5), ''bulkPrice'' \<mapsto> JNumber (Fin 8),
                          ''note'' \<mapsto> JString ''x'']\<rparr>) =
     \<lparr>skuId = ''D'', type = ''reducedPrice'',
      definition' = [''quantity'' \<mapsto> JNumber (Fin 5), ''bulkPrice'' \<mapsto> JNumber (Fin 8),
                     ''note'' \<mapsto> JString ''x'']\<rparr> \<and>
   typeof (property [''quantity'' \<mapsto> JNumber (Fin 5), ''bulkPrice'' \<mapsto> JNumber (Fin 8),
                     ''note'' \<mapsto> JString ''x''] ''bulkPrice'') = ''number''"
proof -
  let ?M = "[''quantity'' \<mapsto> JNumber (Fin 5), ''bulkPrice'' \<mapsto> JNumber (Fin 8),
             ''note'' \<mapsto> JString ''x'']"
  let ?R = "\<lparr>skuId = ''D'', type = ''reducedPrice'', definition' = ?M\<rparr>"
  have c: "new_PricingRule ''D'' ''reducedPrice'' ?M = Inr ?R"
    by (simp add: new_PricingRule_Inr validate_reducedPrice property_def)
  have k: "''bulkPrice'' \<in> set (requiredFields ''reducedPrice'')"
    by (simp add: requiredFields_def)
  from constructed_valid_unchanged [OF c, of "Fin 6" "Fin 10"] k
  have "snd (apply_rule (Fin 6) (Fin 10) ?R) = ?R"
    and "typeof (property (definition' ?R) ''bulkPrice'') = ''number''"
    by blast+
  with c show ?thesis by simp
qed

section \<open>Construction\<close>

text \<open>
  The error thrown for an unrecognised type carries the type and not the SKU: constructing
  \<^verbatim>\<open>new PricingRule("SKU-7", "bogus", {})\<close> fails with the message
  \<^verbatim>\<open>Unknown rule type: bogus\<close>, in which \<^verbatim>\<open>SKU-7\<close> does not occur.
\<close>

theorem unknown_type_message_counterexample:
  "new_PricingRule ''SKU-7'' ''bogus'' Map.empty = Inl (Error ''Unknown rule type: bogus'') \<and>
   \<not> sublist ''SKU-7'' ''Unknown rule type: bogus''"
proof
  show "new_PricingRule ''SKU-7'' ''bogus'' Map.empty = Inl (Error ''Unknown rule type: bogus'')"
    by (simp add: new_PricingRule_def validateDefinition_def)
  show "\<not> sublist ''SKU-7'' ''Unknown rule type: bogus''"
    by code_simp
qed

text \<open>
  Claim C4, as amended. Construction fails if and only if the type is not one of the three
  recognised variants or a field required for the type is missing or not of numeric type.
  When it fails for a recognised type, the error message contains the SKU and, between
  double quotes, the name of every field the type requires; when it fails for an
  unrecognised type, the message is \<^verbatim>\<open>Unknown rule type: \<close> followed by the type.
  When it does not fail, the instance holds the arguments as given, the fields the type
  does not require included.
\<close>

theorem construction_outcome:
  "isl (new_PricingRule sku ty defn) =
     ((\<exists>k\<in>set (requiredFields ty). typeof (property defn k) \<noteq> ''number'') \<or>
      ty \<notin> set recognized) \<and>
   (\<forall>e. ty \<in> set recognized \<and> new_PricingRule sku ty defn = Inl e \<longrightarrow>
      (\<exists>msg. e = Error msg \<and> sublist sku msg \<and>
         (\<forall>k\<in>set (requiredFields ty). sublist (quoted k) msg))) \<and>
   (ty \<notin> set recognized \<longrightarrow>
      new_PricingRule sku ty defn = Inl (Error (''Unknown rule type: '' @ ty))) \<and>
   (\<not> isl (new_PricingRule sku ty defn) \<longrightarrow>
      new_PricingRule sku ty defn = Inr \<lparr>skuId = sku, type = ty, definition' = defn\<rparr>)"
proof (intro conjI allI impI)
  have "isl (new_PricingRule sku ty defn) =
          isl (fst (validateDefinition \<lparr>skuId = sku, type = ty, definition' = defn\<rparr>))"
    by (cases "validateDefinition \<lparr>skuId = sku, type = ty, definition' = defn\<rparr>")
       (auto simp add: new_PricingRule_def split: sum.splits)
  then show "isl (new_PricingRule sku ty defn) =
     ((\<exists>k\<in>set (requiredFields ty). typeof (property defn k) \<noteq> ''number'') \<or>
      ty \<notin> set recognized)"
    by (simp only: validate_fails_iff)
next
  fix e
  assume "ty \<in> set recognized \<and> new_PricingRule sku ty defn = Inl e"
  then show "\<exists>msg. e = Error msg \<and> sublist sku msg \<and>
         (\<forall>k\<in>set (requiredFields ty). sublist (quoted k) msg)"
    using message_names_sku_and_fields [of ty sku defn e]
    by (simp add: new_PricingRule_Inl)
next
  assume "ty \<notin> set recognized"
  then show "new_PricingRule sku ty defn = Inl (Error (''Unknown rule type: '' @ ty))"
    by (simp add: new_PricingRule_Inl validate_unknown)
next
  assume "\<not> isl (new_PricingRule sku ty defn)"
  then obtain r where r: "new_PricingRule sku ty defn = Inr r"
    by (cases "new_PricingRule sku ty defn") simp_all
  then have "r = \<lparr>skuId = sku, type = ty, definition' = defn\<rparr>"
    by (simp add: new_PricingRule_Inr)
  with r show "new_PricingRule sku ty defn = Inr \<lparr>skuId = sku, type = ty, definition' = defn\<rparr>"
    by simp
qed

theorem construction_outcome_witness:
  "isl (new_PricingRule ''SKU-7'' ''discount'' [''quantity'' \<mapsto> JString ''3'']) \<and>
   new_PricingRule ''SKU-7'' ''reducedPrice''
      [''quantity'' \<mapsto> JNumber (Fin 5), ''bulkPrice'' \<mapsto> JNumber (Fin 8), ''note'' \<mapsto> JString ''x''] =
     Inr \<lparr>skuId = ''SKU-7'', type = ''reducedPrice'',
          definition' = [''quantity'' \<mapsto> JNumber (Fin 5), ''bulkPrice'' \<mapsto> JNumber (Fin 8),
                         ''note'' \<mapsto> JString ''x'']\<rparr> \<and>
   new_PricingRule ''SKU-7'' ''bogus'' [''quantity'' \<mapsto> JNumber (Fin 5)] =
     Inl (Error ''Unknown rule type: bogus'')"
proof (intro conjI)
  let ?bad = "[''quantity'' \<mapsto> JString ''3'']"
  have "''quantity'' \<in> set (requiredFields ''discount'') \<and>
        typeof (property ?bad ''quantity'') \<noteq> ''number''"
    by (simp add: requiredFields_def property_def)
  then have "\<exists>k\<in>set (requiredFields ''discount''). typeof (property ?bad k) \<noteq> ''number''"
    by blast
  with construction_outcome [of "''SKU-7''" "''discount''" ?bad]
  show "isl (new_PricingRule ''SKU-7'' ''discount'' ?bad)"
    by blast
next
  let ?M = "[''quantity'' \<mapsto> JNumber (Fin 5), ''bulkPrice'' \<mapsto> JNumber (Fin 8),
             ''note'' \<mapsto> JString ''x'']"
  have "\<not> ((\<exists>k\<in>set (requiredFields ''reducedPrice''). typeof (property ?M k) \<noteq> ''number'') \<or>
            ''reducedPrice'' \<notin> set recognized)"
    by (simp add: requiredFields_def property_def recognized_def)
  with construction_outcome [of "''SKU-7''" "''reducedPrice''" ?M]
  show "new_PricingRule ''SKU-7'' ''reducedPrice'' ?M =
          Inr \<lparr>skuId = ''SKU-7'', type = ''reducedPrice'', definition' = ?M\<rparr>"
    by blast
next
  have "''bogus'' \<notin> set recognized"
    by (simp add: recognized_def)
  with construction_outcome [of "''SKU-7''" "''bogus''" "[''quantity'' \<mapsto> JNumber (Fin 5)]"]
  show "new_PricingRule ''SKU-7'' ''bogus'' [''quantity'' \<mapsto> JNumber (Fin 5)] =
          Inl (Error ''Unknown rule type: bogus'')"
    by simp
qed

text \<open>
  The constructor tests the type of \<^verbatim>\<open>quantity\<close>, not its value: a \<^verbatim>\<open>discount\<close>
  rule with quantity \<open>0\<close>, \<open>-1\<close> or \<open>5/2\<close> is constructed.
\<close>

theorem discount_quantity_counterexample:
  "new_PricingRule ''Q'' ''discount''
      [''quantity'' \<mapsto> JNumber (Fin 0), ''discountedQuantity'' \<mapsto> JNumber (Fin 0)] =
     Inr \<lparr>skuId = ''Q'', type = ''discount'',
          definition' = [''quantity'' \<mapsto> JNumber (Fin 0), ''discountedQuantity'' \<mapsto> JNumber (Fin 0)]\<rparr> \<and>
   new_PricingRule ''Q'' ''discount''
      [''quantity'' \<mapsto> JNumber (Fin (- 1)), ''discountedQuantity'' \<mapsto> JNumber (Fin 0)] =
     Inr \<lparr>skuId = ''Q'', type = ''discount'',
          definition' = [''quantity'' \<mapsto> JNumber (Fin (- 1)), ''discountedQuantity'' \<mapsto> JNumber (Fin 0)]\<rparr> \<and>
   new_PricingRule ''Q'' ''discount''
      [''quantity'' \<mapsto> JNumber (Fin (5 / 2)), ''discountedQuantity'' \<mapsto> JNumber (Fin 0)] =
     Inr \<lparr>skuId = ''Q'', type = ''discount'',
          definition' = [''quantity'' \<mapsto> JNumber (Fin (5 / 2)), ''discountedQuantity'' \<mapsto> JNumber (Fin 0)]\<rparr>"
  by (simp add: new_PricingRule_def validateDefinition_def property_def)

text \<open>
  Claim C6, as amended. Construction of a rule of type \<^verbatim>\<open>discount\<close> succeeds if and only
  if \<^verbatim>\<open>quantity\<close> and \<^verbatim>\<open>discountedQuantity\<close> are both of numeric type, and fails
  otherwise; every pair of numbers is accepted, whatever their sign, integrality or
  finiteness.
\<close>

theorem discount_construction:
  "(new_PricingRule sku ''discount'' defn =
      Inr \<lparr>skuId = sku, type = ''discount'', definition' = defn\<rparr>) =
     (typeof (property defn ''quantity'') = ''number'' \<and>
      typeof (property defn ''discountedQuantity'') = ''number'') \<and>
   isl (new_PricingRule sku ''discount'' defn) =
     (\<not> (typeof (property defn ''quantity'') = ''number'' \<and>
         typeof (property defn ''discountedQuantity'') = ''number'')) \<and>
   new_PricingRule sku ''discount''
      (defn(''quantity'' \<mapsto> JNumber q, ''discountedQuantity'' \<mapsto> JNumber d)) =
     Inr \<lparr>skuId = sku, type = ''discount'',
          definition' = defn(''quantity'' \<mapsto> JNumber q, ''discountedQuantity'' \<mapsto> JNumber d)\<rparr>"
proof (intro conjI)
  show "(new_PricingRule sku ''discount'' defn =
      Inr \<lparr>skuId = sku, type = ''discount'', definition' = defn\<rparr>) =
     (typeof (property defn ''quantity'') = ''number'' \<and>
      typeof (property defn ''discountedQuantity'') = ''number'')"
    by (simp add: new_PricingRule_Inr validate_discount typeof_number_iff)
  have "isl (new_PricingRule sku ''discount'' defn) =
          isl (fst (validateDefinition \<lparr>skuId = sku, type = ''discount'', definition' = defn\<rparr>))"
    by (cases "validateDefinition \<lparr>skuId = sku, type = ''discount'', definition' = defn\<rparr>")
       (auto simp add: new_PricingRule_def split: sum.splits)
  then show "isl (new_PricingRule sku ''discount'' defn) =
     (\<not> (typeof (property defn ''quantity'') = ''number'' \<and>
         typeof (property defn ''discountedQuantity'') = ''number''))"
    by (auto simp add: validate_fails_iff requiredFields_def recognized_def)
  show "new_PricingRule sku ''discount''
      (defn(''quantity'' \<mapsto> JNumber q, ''discountedQuantity'' \<mapsto> JNumber d)) =
     Inr \<lparr>skuId = sku, type = ''discount'',
          definition' = defn(''quantity'' \<mapsto> JNumber q, ''discountedQuantity'' \<mapsto> JNumber d)\<rparr>"
    by (simp add: new_PricingRule_Inr validate_discount property_def)
qed

theorem discount_construction_witness:
  "new_PricingRule ''Q'' ''discount''
      [''quantity'' \<mapsto> JNumber (Fin (5 / 2)), ''discountedQuantity'' \<mapsto> JNumber NaN] =
     Inr \<lparr>skuId = ''Q'', type = ''discount'',
          definition' = [''quantity'' \<mapsto> JNumber (Fin (5 / 2)), ''discountedQuantity'' \<mapsto> JNumber NaN]\<rparr> \<and>
   isl (new_PricingRule ''Q'' ''discount'' [''quantity'' \<mapsto> JNumber (Fin 3)])"
proof
  from discount_construction [of "''Q''" Map.empty "Fin (5 / 2)" NaN]
  show "new_PricingRule ''Q'' ''discount''
      [''quantity'' \<mapsto> JNumber (Fin (5 / 2)), ''discountedQuantity'' \<mapsto> JNumber NaN] =
     Inr \<lparr>skuId = ''Q'', type = ''discount'',
          definition' = [''quantity'' \<mapsto> JNumber (Fin (5 / 2)), ''discountedQuantity'' \<mapsto> JNumber NaN]\<rparr>"
    by blast
  have "\<not> (typeof (property [''quantity'' \<mapsto> JNumber (Fin 3)] ''quantity'') = ''number'' \<and>
           typeof (property [''quantity'' \<mapsto> JNumber (Fin 3)] ''discountedQuantity'') = ''number'')"
    by (simp add: property_def)
  with discount_construction [of "''Q''" "[''quantity'' \<mapsto> JNumber (Fin 3)]"]
  show "isl (new_PricingRule ''Q'' ''discount'' [''quantity'' \<mapsto> JNumber (Fin 3)])"
    by blast
qed

section \<open>A count of zero\<close>

text \<open>
  A \<^verbatim>\<open>discount\<close> rule with quantity \<open>0\<close> is constructed, and \<^verbatim>\<open>apply(0, 10)\<close> on it
  computes \<^verbatim>\<open>0 / 0\<close> and \<^verbatim>\<open>0 % 0\<close> and returns \<^verbatim>\<open>NaN\<close>, not \<open>0\<close>.
\<close>

theorem zero_count_counterexample:
  "new_PricingRule ''Z'' ''discount''
      [''quantity'' \<mapsto> JNumber (Fin 0), ''discountedQuantity'' \<mapsto> JNumber (Fin 2)] =
     Inr \<lparr>skuId = ''Z'', type = ''discount'',
          definition' = [''quantity'' \<mapsto> JNumber (Fin 0), ''discountedQuantity'' \<mapsto> JNumber (Fin 2)]\<rparr> \<and>
   fst (apply_rule (Fin 0) (Fin 10)
          \<lparr>skuId = ''Z'', type = ''discount'',
           definition' = [''quantity'' \<mapsto> JNumber (Fin 0), ''discountedQuantity'' \<mapsto> JNumber (Fin 2)]\<rparr>) =
     Inr NaN \<and>
   Inr NaN \<noteq> (Inr (Fin 0) :: error + number)"
  by (simp add: new_PricingRule_def validateDefinition_def property_def apply_rule_def
      applyDiscount_def nonNull_def bind_result_def)

text \<open>
  Claim C7, as amended. For every successfully constructed rule whose required fields are
  finite numbers and every finite price, \<^verbatim>\<open>apply(0, price)\<close> returns \<open>0\<close>, for the
  variant \<^verbatim>\<open>reducedPrice\<close> always and for the variants \<^verbatim>\<open>discount\<close> and \<^verbatim>\<open>both\<close>
  when \<^verbatim>\<open>quantity\<close> is not \<open>0\<close>.
\<close>

theorem zero_count_total:
  assumes "new_PricingRule sku ty defn = Inr this"
    and "\<forall>k\<in>set (requiredFields ty). Number_isFinite (property defn k)"
    and "ty = ''reducedPrice'' \<or> property defn ''quantity'' \<noteq> JNumber (Fin 0)"
  shows "fst (apply_rule (Fin 0) (Fin p) this) = Inr (Fin 0)"
proof -
  from assms(1) have inst: "this = \<lparr>skuId = sku, type = ty, definition' = defn\<rparr>"
    and v: "fst (validateDefinition \<lparr>skuId = sku, type = ty, definition' = defn\<rparr>) = Inr ()"
    by (simp_all add: new_PricingRule_Inr)
  from v have "ty \<in> set recognized" by (rule validate_recognized)
  then consider "ty = ''discount''" | "ty = ''reducedPrice''" | "ty = ''both''"
    by (auto simp add: recognized_def)
  then show ?thesis
  proof cases
    case 1
    with assms(2) obtain a b where q: "property defn ''quantity'' = JNumber (Fin a)"
      and d: "property defn ''discountedQuantity'' = JNumber (Fin b)"
      by (auto simp add: requiredFields_def Number_isFinite_iff)
    from 1 q assms(3) have "a \<noteq> 0" by simp
    then have "billedUnits (Fin 0) (Fin a) (Fin b) = Fin 0" by (rule billedUnits_zero)
    moreover from inst 1 q d
    have "fst (apply_rule (Fin 0) (Fin p) this) =
            Inr (js_mul (billedUnits (Fin 0) (Fin a) (Fin b)) (Fin p))"
      by (intro apply_discount_value) simp_all
    ultimately show ?thesis by simp
  next
    case 2
    with assms(2) obtain a c where q: "property defn ''quantity'' = JNumber (Fin a)"
      and b: "property defn ''bulkPrice'' = JNumber (Fin c)"
      by (auto simp add: requiredFields_def Number_isFinite_iff)
    from inst q b have "fst (applyReducedPrice (Fin 0) (Fin p) this) =
        Inr (if js_gt (Fin 0) (Fin a) then js_mul (Fin 0) (Fin c) else js_mul (Fin 0) (Fin p))"
      by (intro applyReducedPrice_value) simp_all
    with inst 2 show ?thesis by (simp add: apply_rule_def)
  next
    case 3
    with assms(2) obtain a b c where q: "property defn ''quantity'' = JNumber (Fin a)"
      and d: "property defn ''discountedQuantity'' = JNumber (Fin b)"
      and b: "property defn ''bulkPrice'' = JNumber (Fin c)"
      by (auto simp add: requiredFields_def Number_isFinite_iff)
    from 3 q assms(3) have "a \<noteq> 0" by simp
    then have "billedUnits (Fin 0) (Fin a) (Fin b) = Fin 0" by (rule billedUnits_zero)
    moreover from inst 3 q d b
    have "fst (apply_rule (Fin 0) (Fin p) this) =
            Inr (if js_gt (billedUnits (Fin 0) (Fin a) (Fin b)) (Fin a)
                 then js_mul (billedUnits (Fin 0) (Fin a) (Fin b)) (Fin c)
                 else js_mul (billedUnits (Fin 0) (Fin a) (Fin b)) (Fin p))"
      by (intro apply_both_value) simp_all
    ultimately show ?thesis by simp
  qed
qed

theorem zero_count_total_witness:
  "new_PricingRule ''Z'' ''both''
      [''quantity'' \<mapsto> JNumber (Fin 3), ''discountedQuantity'' \<mapsto> JNumber (Fin 2),
       ''bulkPrice'' \<mapsto> JNumber (Fin 5)] =
     Inr \<lparr>skuId = ''Z'', type = ''both'',
          definition' = [''quantity'' \<mapsto> JNumber (Fin 3), ''discountedQuantity'' \<mapsto> JNumber (Fin 2),
                         ''bulkPrice'' \<mapsto> JNumber (Fin 5)]\<rparr> \<and>
   fst (apply_rule (Fin 0) (Fin 10)
          \<lparr>skuId = ''Z'', type = ''both'',
           definition' = [''quantity'' \<mapsto> JNumber (Fin 3), ''discountedQuantity'' \<mapsto> JNumber (Fin 2),
                          ''bulkPrice'' \<mapsto> JNumber (Fin 5)]\<rparr>) =
     Inr (Fin 0)"
proof -
  let ?M = "[''quantity'' \<mapsto> JNumber (Fin 3), ''discountedQuantity'' \<mapsto> JNumber (Fin 2),
             ''bulkPrice'' \<mapsto> JNumber (Fin 5)]"
  let ?R = "\<lparr>skuId = ''Z'', type = ''both'', definition' = ?M\<rparr>"
  have c: "new_PricingRule ''Z'' ''both'' ?M = Inr ?R"
    by (simp add: new_PricingRule_Inr validate_both property_def)
  have f: "\<forall>k\<in>set (requiredFields ''both''). Number_isFinite (property ?M k)"
    by (simp add: requiredFields_def property_def)
  have n: "''both'' = ''reducedPrice'' \<or> property ?M ''quantity'' \<noteq> JNumber (Fin 0)"
    by (simp add: property_def)
  from zero_count_total [OF c f n, of 10] c show ?thesis by simp
qed

end
